theory Spec2Isabelle
  imports Main
begin

section \<open>Values of the request and of the collaborators\<close>

text \<open>
  The handlers of \<^verbatim>\<open>ChatRouter\<close> (chatRouter.ts) read fields of a JSON request body,
  call the collaborators reached through \<^verbatim>\<open>Server()\<close> and \<^verbatim>\<open>ChatInterface\<close>, and either
  throw or send a \<^verbatim>\<open>Success\<close> response. JSON values are a datatype; numbers are integers
  here, since the handlers only test them for truthiness and hand them on.
\<close>

datatype jsval =
    JUndefined
  | JNull
  | JBool bool
  | JNum int
  | JStr string
  | JArr "jsval list"
  | JObj "(string \<times> jsval) list"

text \<open>JavaScript truthiness, as tested by \<^verbatim>\<open>if (displayName)\<close> and \<^verbatim>\<open>offset ? ... : ...\<close>.\<close>

fun truthy :: "jsval \<Rightarrow> bool" where
  "truthy JUndefined = False"
| "truthy JNull = False"
| "truthy (JBool b) = b"
| "truthy (JNum n) = (n \<noteq> 0)"
| "truthy (JStr s) = (s \<noteq> [])"
| "truthy (JArr xs) = True"
| "truthy (JObj kvs) = True"

text \<open>
  A request body is absent (\<^verbatim>\<open>undefined\<close> or \<^verbatim>\<open>null\<close>) or an object of fields;
  \<open>opt_field\<close> is the optional chaining \<^verbatim>\<open>body?.name\<close>.
\<close>

type_synonym jsobj = "(string \<times> jsval) list"

definition opt_field :: "jsobj option \<Rightarrow> string \<Rightarrow> jsval" where
  "opt_field b k =
     (case b of
        None \<Rightarrow> JUndefined
      | Some kvs \<Rightarrow> (case map_of kvs k of None \<Rightarrow> JUndefined | Some v \<Rightarrow> v))"

text \<open>
  What a collaborator throws: an \<^verbatim>\<open>Error\<close> object with a name and a message, or a bare
  string. \<open>ex_message\<close> is \<^verbatim>\<open>ex?.message ?? ex\<close>.
\<close>

datatype thrown = ErrorObject string string | ThrownString string

fun ex_message :: "thrown \<Rightarrow> string" where
  "ex_message (ErrorObject n m) = m"
| "ex_message (ThrownString s) = s"

text \<open>
  The errors a handler ends with: the two response classes the router constructs
  (an optional \<^verbatim>\<open>message\<close> and the \<^verbatim>\<open>error\<close> text), a \<^verbatim>\<open>TypeError\<close> of the
  language, and an exception of a collaborator that the handler lets through.
\<close>

datatype http_error =
    NotFound "string option" string
  | IMessageError "string option" string
  | TypeError
  | Propagated thrown

record chat =
  guid :: string
  displayName :: "string option"
  serviceName :: string
  participants :: "string list"

record db_message =
  msg_guid :: string
  msg_text :: string

record message_response =
  mr_guid :: string
  mr_text :: string
  tempGuid :: jsval

record chat_response =
  cr_guid :: string
  cr_displayName :: "string option"
  cr_participants :: "string list"
  lastMessage :: "message_response option"
  messages :: "message_response list option"

record chat_query =
  chatGuid :: string
  withParticipants :: bool

record get_params =
  gp_guid :: jsval
  gp_withParticipants :: bool
  gp_withLastMessage :: bool
  gp_withArchived :: bool
  gp_offset :: "int option"
  gp_limit :: "int option"
  gp_sort :: jsval

record create_params =
  cp_addresses :: jsval
  cp_message :: jsval
  cp_method :: jsval
  cp_service :: jsval
  cp_tempGuid :: jsval

datatype toggle_action = Add | Remove

text \<open>The mutation kinds of the action executor (spec, PendingAction.kind).\<close>

datatype exec_kind =
  KCreate | KRename | KAddParticipant | KRemoveParticipant | KMarkRead | KDelete

text \<open>
  The trace of a handler: every collaborator call it makes, in order. \<open>Submit\<close> is a
  submission to the action executor made inside a collaborator; a collaborator that
  mutates hands back the events it caused together with its outcome.
\<close>

datatype event =
    Repo_getChats "chat_query option"
  | Repo_getChatLastMessage string
  | Repo_getChatCount
  | CI_get get_params
  | CI_setDisplayName chat jsval
  | CI_create create_params
  | CI_toggleParticipant chat jsval toggle_action
  | PA_markChatRead string
  | EmitMessage string jsval
  | Submit exec_kind string

fun is_mutation :: "event \<Rightarrow> bool" where
  "is_mutation (CI_setDisplayName c d) = True"
| "is_mutation (CI_create p) = True"
| "is_mutation (CI_toggleParticipant c a t) = True"
| "is_mutation (PA_markChatRead g) = True"
| "is_mutation (Submit k g) = True"
| "is_mutation e = False"

fun is_submit :: "event \<Rightarrow> bool" where
  "is_submit (Submit k g) = True"
| "is_submit e = False"

record query_metadata =
  md_total :: int
  md_offset :: jsval
  md_limit :: jsval

record 'd success =
  message :: "string option"
  data :: "'d option"
  metadata :: "query_metadata option"

record count_data =
  total :: nat
  breakdown :: "string \<rightharpoonup> nat"

record ctx =
  params_guid :: string
  query_with :: "string option"
  body :: "jsobj option"

text \<open>
  The collaborators, none of which is part of the router: the repository
  (\<^verbatim>\<open>Server().iMessageRepo\<close>), the response builders, \<^verbatim>\<open>ChatInterface\<close>, the private API
  helper, the event emitter, and three helpers whose code the router imports
  (\<^verbatim>\<open>isNotEmpty\<close> on a scalar, \<^verbatim>\<open>safeTrim\<close>, \<^verbatim>\<open>Number.parseInt(_, 10)\<close> with
  \<open>None\<close> for \<^verbatim>\<open>NaN\<close>). Every awaited call may throw.
\<close>

record env =
  getChats :: "chat_query option \<Rightarrow> thrown + chat list"
  getChatLastMessage :: "string \<Rightarrow> thrown + db_message"
  getChatCount :: "unit \<Rightarrow> thrown + int"
  getChatResponse :: "chat \<Rightarrow> thrown + chat_response"
  getMessageResponse :: "db_message \<Rightarrow> thrown + message_response"
  ChatInterface_get :: "get_params \<Rightarrow> thrown + chat_response list"
  ChatInterface_setDisplayName :: "chat \<Rightarrow> jsval \<Rightarrow> event list \<times> (thrown + chat)"
  ChatInterface_create :: "create_params \<Rightarrow> event list \<times> (thrown + chat option)"
  ChatInterface_toggleParticipant ::
    "chat \<Rightarrow> jsval \<Rightarrow> toggle_action \<Rightarrow> event list \<times> (thrown + chat)"
  markChatRead :: "string \<Rightarrow> event list \<times> (thrown + unit)"
  emitMessage :: "string \<Rightarrow> jsval \<Rightarrow> thrown + unit"
  isNotEmpty_value :: "jsval \<Rightarrow> bool"
  safeTrim :: "string \<Rightarrow> string"
  Number_parseInt :: "jsval \<Rightarrow> int option"

section \<open>Running a handler: trace and outcome\<close>

type_synonym 'a io = "event list \<times> (http_error + 'a)"

definition io_return :: "'a \<Rightarrow> 'a io" where
  "io_return x = ([], Inr x)"

definition io_throw :: "http_error \<Rightarrow> 'a io" where
  "io_throw e = ([], Inl e)"

definition io_bind :: "'a io \<Rightarrow> ('a \<Rightarrow> 'b io) \<Rightarrow> 'b io" where
  "io_bind m f =
     (case m of
        (tr, Inl e) \<Rightarrow> (tr, Inl e)
      | (tr, Inr x) \<Rightarrow> (case f x of (tr', r) \<Rightarrow> (tr @ tr', r)))"

text \<open>An awaited value that is no collaborator call of its own (a response builder).\<close>

definition lift :: "thrown + 'a \<Rightarrow> 'a io" where
  "lift r = (case r of Inl t \<Rightarrow> ([], Inl (Propagated t)) | Inr x \<Rightarrow> ([], Inr x))"

text \<open>
  An awaited call that causes no further events (a read of the store, the emitter): the
  call is logged, an exception passes through.
\<close>

definition await_read :: "event \<Rightarrow> thrown + 'a \<Rightarrow> 'a io" where
  "await_read e r = (case r of Inl t \<Rightarrow> ([e], Inl (Propagated t)) | Inr x \<Rightarrow> ([e], Inr x))"

text \<open>An awaited mutating call: the call, then what it caused, then its outcome.\<close>

definition await_call :: "event \<Rightarrow> event list \<times> (thrown + 'a) \<Rightarrow> 'a io" where
  "await_call e c =
     (case c of
        (tr, Inl t) \<Rightarrow> (e # tr, Inl (Propagated t))
      | (tr, Inr x) \<Rightarrow> (e # tr, Inr x))"

section \<open>Helpers of the language and of the utilities module\<close>

text \<open>
  Modelled from the spec: the helpers \<^verbatim>\<open>isEmpty\<close> and \<^verbatim>\<open>isNotEmpty\<close> of
  \<^verbatim>\<open>@server/helpers/utils\<close> are imported by the router and are not among the sources.
  The spec says of every lookup that it fails with NotFound "if absent", and of update
  that an aggregate error surfaces when a field failed: on an array, empty means that it
  has no element.
\<close>

definition isEmpty :: "'a list \<Rightarrow> bool" where
  "isEmpty xs = (xs = [])"

definition isNotEmpty :: "'a list \<Rightarrow> bool" where
  "isNotEmpty xs = (xs \<noteq> [])"

text \<open>\<^verbatim>\<open>Array.prototype.join\<close> on strings.\<close>

fun join :: "string \<Rightarrow> string list \<Rightarrow> string" where
  "join sep [] = []"
| "join sep [x] = x"
| "join sep (x # y # ys) = x @ sep @ join sep (y # ys)"

text \<open>\<^verbatim>\<open>String.prototype.toLowerCase\<close> on the ASCII letters.\<close>

definition toLowerCase_char :: "char \<Rightarrow> char" where
  "toLowerCase_char c =
     (let n = (of_char c :: nat) in if 65 \<le> n \<and> n \<le> 90 then char_of (n + 32) else c)"

definition toLowerCase :: "string \<Rightarrow> string" where
  "toLowerCase s = map toLowerCase_char s"

text \<open>\<^verbatim>\<open>s.split(",")\<close>: the empty string splits into one empty piece.\<close>

fun split :: "char \<Rightarrow> string \<Rightarrow> string list" where
  "split c [] = [[]]"
| "split c (x # xs) =
     (if x = c then [] # split c xs
      else (case split c xs of [] \<Rightarrow> [[x]] | w # ws \<Rightarrow> (x # w) # ws))"

section \<open>ChatRouter.count\<close>

text \<open>
  \<^verbatim>\<open>serviceCounts\<close> is a plain object \<^verbatim>\<open>{}\<close> used as a dictionary: a map from its own
  keys to their values (the order in which JavaScript enumerates the keys is not part of
  the model). \<open>obj_set\<close> is the assignment \<^verbatim>\<open>obj[k] = v\<close> of a number: for every key but
  \<^verbatim>\<open>__proto__\<close> it creates or overwrites an own property; for \<^verbatim>\<open>__proto__\<close> it reaches the
  setter inherited from \<^verbatim>\<open>Object.prototype\<close>, which ignores a value that is no object, so
  the object keeps its keys.
\<close>

definition obj_set :: "(string \<rightharpoonup> 'v) \<Rightarrow> string \<Rightarrow> 'v \<Rightarrow> (string \<rightharpoonup> 'v)" where
  "obj_set obj k v = (if k = ''__proto__'' then obj else obj(k \<mapsto> v))"

text \<open>
  The loop over the chats. \<^verbatim>\<open>Object.keys(serviceCounts).includes(k)\<close> asks whether \<open>k\<close> is
  an own key; if not, the key is assigned 0. Then \<^verbatim>\<open>serviceCounts[k] += 1\<close> reads the entry
  and assigns the sum. The entry is missing at that point only for \<^verbatim>\<open>__proto__\<close> (lemma
  \<open>count_entry_present\<close>): there the read yields the prototype object, the sum is a string,
  and the assignment is ignored once more.
\<close>

fun count_loop :: "chat list \<Rightarrow> (string \<rightharpoonup> nat) \<Rightarrow> (string \<rightharpoonup> nat)" where
  "count_loop [] serviceCounts = serviceCounts"
| "count_loop (c # cs) serviceCounts =
     (let sc1 = (if serviceCounts (serviceName c) = None
                 then obj_set serviceCounts (serviceName c) 0
                 else serviceCounts);
          sc2 = (case sc1 (serviceName c) of
                   Some n \<Rightarrow> obj_set sc1 (serviceName c) (n + 1)
                 | None \<Rightarrow> sc1)
      in count_loop cs sc2)"

definition ChatRouter_count :: "env \<Rightarrow> count_data success io" where
  "ChatRouter_count env =
     io_bind (await_read (Repo_getChats None) (getChats env None)) (\<lambda>chats.
       let serviceCounts = count_loop chats Map.empty;
           d = \<lparr>total = length chats, breakdown = serviceCounts\<rparr>
       in io_return \<lparr>message = None, data = Some d, metadata = None\<rparr>)"

section \<open>ChatRouter.find\<close>

text \<open>The \<^verbatim>\<open>with\<close> parameter of the query string: lower-cased, split at commas, trimmed.\<close>

definition withQuery_of_string :: "env \<Rightarrow> string option \<Rightarrow> string list" where
  "withQuery_of_string env w =
     map (safeTrim env) (split CHR '','' (toLowerCase (case w of None \<Rightarrow> [] | Some s \<Rightarrow> s)))"

definition ChatRouter_find :: "env \<Rightarrow> ctx \<Rightarrow> chat_response success io" where
  "ChatRouter_find env c =
     (let withQuery = withQuery_of_string env (query_with c);
          withParticipants' = (''participants'' \<in> set withQuery);
          withLastMessage = (''lastmessage'' \<in> set withQuery);
          q = \<lparr>chatGuid = params_guid c, withParticipants = withParticipants'\<rparr>
      in io_bind (await_read (Repo_getChats (Some q)) (getChats env (Some q))) (\<lambda>chats.
           if isEmpty chats then io_throw (NotFound None ''Chat does not exist!'')
           else
             io_bind (lift (getChatResponse env (hd chats))) (\<lambda>res.
             io_bind
               (if withLastMessage
                then io_bind (await_read (Repo_getChatLastMessage (params_guid c))
                                (getChatLastMessage env (params_guid c))) (\<lambda>m.
                     io_bind (lift (getMessageResponse env m)) (\<lambda>mr.
                       io_return (res\<lparr>lastMessage := Some mr\<rparr>)))
                else io_return res) (\<lambda>res'.
             io_return \<lparr>message = None, data = Some res', metadata = None\<rparr>))))"

section \<open>ChatRouter.query\<close>

fun strings_of :: "jsval list \<Rightarrow> string list" where
  "strings_of [] = []"
| "strings_of (JStr s # vs) = s # strings_of vs"
| "strings_of (v # vs) = strings_of vs"

text \<open>
  \<^verbatim>\<open>(body?.with ?? []).filter(...).map(...)\<close>: a value that is neither nullish nor an
  array has no \<^verbatim>\<open>filter\<close>, and the call raises a TypeError (\<open>None\<close>).
\<close>

fun withQuery_of_body :: "env \<Rightarrow> jsval \<Rightarrow> string list option" where
  "withQuery_of_body env JUndefined = Some []"
| "withQuery_of_body env JNull = Some []"
| "withQuery_of_body env (JArr vs) =
     Some (map (\<lambda>e. safeTrim env (toLowerCase e)) (strings_of vs))"
| "withQuery_of_body env v = None"

definition ChatRouter_query :: "env \<Rightarrow> ctx \<Rightarrow> chat_response list success io" where
  "ChatRouter_query env c =
     (case withQuery_of_body env (opt_field (body c) ''with'') of
        None \<Rightarrow> io_throw TypeError
      | Some withQuery \<Rightarrow>
          (case body c of
             None \<Rightarrow> io_throw TypeError
           | Some b \<Rightarrow>
               (let sort = opt_field (Some b) ''sort'';
                    offset = opt_field (Some b) ''offset'';
                    limit = opt_field (Some b) ''limit'';
                    p = \<lparr>gp_guid = opt_field (body c) ''guid'',
                         gp_withParticipants = (''participants'' \<in> set withQuery),
                         gp_withLastMessage = (''lastmessage'' \<in> set withQuery),
                         gp_withArchived = (''archived'' \<in> set withQuery),
                         gp_offset = (if truthy offset then Number_parseInt env offset else Some 0),
                         gp_limit = (if truthy limit then Number_parseInt env limit else Some 1000),
                         gp_sort = sort\<rparr>
                in io_bind (await_read (CI_get p) (ChatInterface_get env p)) (\<lambda>results.
                   io_bind (await_read Repo_getChatCount (getChatCount env ())) (\<lambda>n.
                     io_return \<lparr>message = None, data = Some results,
                       metadata = Some \<lparr>md_total = n, md_offset = offset, md_limit = limit\<rparr>\<rparr>)))))"

section \<open>ChatRouter.update\<close>

text \<open>
  The block guarded by \<^verbatim>\<open>if (displayName)\<close>: it yields the chat and the two lists
  \<^verbatim>\<open>updated\<close> and \<^verbatim>\<open>errors\<close>, or throws for a chat that is no group. The
  \<^verbatim>\<open>try ... catch\<close> turns an exception of \<^verbatim>\<open>ChatInterface.setDisplayName\<close> into an
  entry of \<^verbatim>\<open>errors\<close>.
\<close>

definition update_displayName ::
    "env \<Rightarrow> chat \<Rightarrow> jsval \<Rightarrow> (chat \<times> string list \<times> string list) io" where
  "update_displayName env ch dn =
     (if truthy dn then
        (if length (participants ch) \<le> 1
         then io_throw (IMessageError (Some ''Cannot rename a non-group chat!'') ''Chat is not a group'')
         else (case ChatInterface_setDisplayName env ch dn of
                 (tr, Inr ch') \<Rightarrow> (CI_setDisplayName ch dn # tr, Inr (ch', [''displayName''], []))
               | (tr, Inl ex) \<Rightarrow> (CI_setDisplayName ch dn # tr, Inr (ch, [], [ex_message ex]))))
      else io_return (ch, [], []))"

definition ChatRouter_update :: "env \<Rightarrow> ctx \<Rightarrow> chat_response success io" where
  "ChatRouter_update env c =
     (let dn = opt_field (body c) ''displayName'';
          q = \<lparr>chatGuid = params_guid c, withParticipants = True\<rparr>
      in io_bind (await_read (Repo_getChats (Some q)) (getChats env (Some q))) (\<lambda>chats.
           if isEmpty chats then io_throw (NotFound None ''Chat does not exist!'')
           else
             io_bind (update_displayName env (hd chats) dn) (\<lambda>(ch, updated, errors).
               if isNotEmpty errors
               then io_throw (IMessageError (Some ''Chat update executed with errors!'')
                                (join '', '' errors))
               else
                 io_bind (lift (getChatResponse env ch)) (\<lambda>d.
                   if isEmpty updated
                   then io_return \<lparr>message = Some ''Chat not updated! No update information provided!'',
                                    data = Some d, metadata = None\<rparr>
                   else io_return
                          \<lparr>message = Some (''Successfully updated the following fields: ''
                                             @ join '', '' updated),
                           data = Some d, metadata = None\<rparr>))))"

section \<open>ChatRouter.create\<close>

text \<open>
  The loop \<^verbatim>\<open>for (const i of data.messages ?? []) i.tempGuid = tempGuid\<close>: every
  message of the response gets the field; a response without \<^verbatim>\<open>messages\<close> is left alone.
\<close>

definition stamp_tempGuid :: "jsval \<Rightarrow> chat_response \<Rightarrow> chat_response" where
  "stamp_tempGuid tg d = d\<lparr>messages := map_option (map (\<lambda>i. i\<lparr>tempGuid := tg\<rparr>)) (messages d)\<rparr>"

definition ChatRouter_create :: "env \<Rightarrow> ctx \<Rightarrow> chat_response success io" where
  "ChatRouter_create env c =
     (let tempGuid' = opt_field (body c) ''tempGuid'';
          p = \<lparr>cp_addresses = opt_field (body c) ''addresses'',
               cp_message = opt_field (body c) ''message'',
               cp_method = opt_field (body c) ''method'',
               cp_service = opt_field (body c) ''service'',
               cp_tempGuid = tempGuid'\<rparr>
      in io_bind (await_call (CI_create p) (ChatInterface_create env p)) (\<lambda>created.
           case created of
             None \<Rightarrow> io_throw (IMessageError None ''Failed to create chat!'')
           | Some ch \<Rightarrow>
               io_bind (lift (getChatResponse env ch)) (\<lambda>d.
                 io_return
                   \<lparr>message = Some ''Successfully created chat!'',
                    data = Some (if isNotEmpty_value env tempGuid' then stamp_tempGuid tempGuid' d else d),
                    metadata = None\<rparr>)))"

section \<open>ChatRouter.markRead\<close>

definition read_payload :: "string \<Rightarrow> jsval" where
  "read_payload g = JObj [(''chatGuid'', JStr g), (''read'', JBool True)]"

definition ChatRouter_markRead :: "env \<Rightarrow> ctx \<Rightarrow> unit success io" where
  "ChatRouter_markRead env c =
     io_bind (await_call (PA_markChatRead (params_guid c)) (markChatRead env (params_guid c))) (\<lambda>u.
     io_bind (await_read (EmitMessage ''chat-read-status-changed'' (read_payload (params_guid c)))
                (emitMessage env ''chat-read-status-changed'' (read_payload (params_guid c)))) (\<lambda>u'.
       io_return \<lparr>message = Some ''Successfully marked chat as read!'', data = None, metadata = None\<rparr>))"

section \<open>ChatRouter.toggleParticipant\<close>

definition ChatRouter_toggleParticipant ::
    "env \<Rightarrow> ctx \<Rightarrow> toggle_action \<Rightarrow> chat_response success io" where
  "ChatRouter_toggleParticipant env c action =
     (let address = opt_field (body c) ''address'';
          q = \<lparr>chatGuid = params_guid c, withParticipants = True\<rparr>
      in io_bind (await_read (Repo_getChats (Some q)) (getChats env (Some q))) (\<lambda>chats.
           if isEmpty chats then io_throw (NotFound None ''Chat does not exist!'')
           else
             io_bind (await_call (CI_toggleParticipant (hd chats) address action)
                        (ChatInterface_toggleParticipant env (hd chats) address action)) (\<lambda>ch.
             io_bind (lift (getChatResponse env ch)) (\<lambda>d.
               io_return \<lparr>message = None, data = Some d, metadata = None\<rparr>))))"

definition ChatRouter_addParticipant :: "env \<Rightarrow> ctx \<Rightarrow> chat_response success io" where
  "ChatRouter_addParticipant env c = ChatRouter_toggleParticipant env c Add"

definition ChatRouter_removeParticipant :: "env \<Rightarrow> ctx \<Rightarrow> chat_response success io" where
  "ChatRouter_removeParticipant env c = ChatRouter_toggleParticipant env c Remove"

text \<open>
  Modelled from the spec: \<^verbatim>\<open>ChatInterface.toggleParticipant\<close> (the spec's
  ParticipantRosterManager.toggle) is called by the router and is not among the sources.
  The spec: a roster must contain at least 2 participants for a roster mutation to be
  permitted, and for a roster of size at most 1 toggle always fails with InvalidOperation
  and never reaches the executor (so the last remaining participant cannot be removed);
  otherwise it submits the roster-change action, which the executor accepts or rejects,
  then re-resolves the chat with participants expanded and returns it.
\<close>

definition ParticipantRosterManager_toggle ::
    "(exec_kind \<Rightarrow> string \<Rightarrow> bool) \<Rightarrow> (chat_query option \<Rightarrow> thrown + chat list)
      \<Rightarrow> chat \<Rightarrow> jsval \<Rightarrow> toggle_action \<Rightarrow> event list \<times> (thrown + chat)" where
  "ParticipantRosterManager_toggle accepts resolve ch address op =
     (if length (participants ch) \<le> 1
      then ([], Inl (ErrorObject ''InvalidOperation'' ''roster cannot be changed''))
      else
        (let k = (case op of Add \<Rightarrow> KAddParticipant | Remove \<Rightarrow> KRemoveParticipant) in
         if \<not> accepts k (guid ch)
         then ([Submit k (guid ch)], Inl (ErrorObject ''ActionRejected'' ''executor declined''))
         else
           (case resolve (Some \<lparr>chatGuid = guid ch, withParticipants = True\<rparr>) of
              Inl t \<Rightarrow> ([Submit k (guid ch)], Inl t)
            | Inr [] \<Rightarrow> ([Submit k (guid ch)], Inl (ErrorObject ''NotFound'' ''chat absent''))
            | Inr (ch' # rest) \<Rightarrow> ([Submit k (guid ch)], Inr ch'))))"

definition with_spec_toggle :: "(exec_kind \<Rightarrow> string \<Rightarrow> bool) \<Rightarrow> env \<Rightarrow> env" where
  "with_spec_toggle accepts env =
     env\<lparr>ChatInterface_toggleParticipant :=
           ParticipantRosterManager_toggle accepts (getChats env)\<rparr>"

section \<open>A sample store and sample collaborators\<close>

text \<open>
  Three chats, two services; collaborators that answer from this store. They are used to
  run the handlers on concrete requests.
\<close>

definition chat_solo :: chat where
  "chat_solo = \<lparr>guid = ''g1'', displayName = None, serviceName = ''iMessage'',
                 participants = [''+15551234567'']\<rparr>"

definition chat_team :: chat where
  "chat_team = \<lparr>guid = ''g2'', displayName = Some ''Old'', serviceName = ''iMessage'',
                 participants = [''a'', ''b'', ''c'']\<rparr>"

definition chat_sms :: chat where
  "chat_sms = \<lparr>guid = ''g3'', displayName = None, serviceName = ''SMS'',
                participants = [''x'']\<rparr>"

definition sample_store :: "chat list" where
  "sample_store = [chat_solo, chat_team, chat_sms]"

definition sample_message :: message_response where
  "sample_message = \<lparr>mr_guid = ''m1'', mr_text = ''hi'', tempGuid = JUndefined\<rparr>"

definition sample_response :: "chat \<Rightarrow> chat_response" where
  "sample_response ch =
     \<lparr>cr_guid = guid ch, cr_displayName = displayName ch, cr_participants = participants ch,
      lastMessage = None, messages = Some [sample_message]\<rparr>"

definition sample_getChats :: "chat_query option \<Rightarrow> thrown + chat list" where
  "sample_getChats q =
     (case q of
        None \<Rightarrow> Inr sample_store
      | Some q' \<Rightarrow> Inr (filter (\<lambda>ch. guid ch = chatGuid q') sample_store))"

definition sample_get :: "get_params \<Rightarrow> thrown + chat_response list" where
  "sample_get p =
     Inr (map sample_response
            (case gp_guid p of
               JStr g \<Rightarrow> filter (\<lambda>ch. guid ch = g) sample_store
             | _ \<Rightarrow> sample_store))"

definition sample_env :: env where
  "sample_env =
     \<lparr>getChats = sample_getChats,
      getChatLastMessage = (\<lambda>g. Inr \<lparr>msg_guid = ''m9'', msg_text = ''last''\<rparr>),
      getChatCount = (\<lambda>u. Inr (int (length sample_store))),
      getChatResponse = (\<lambda>ch. Inr (sample_response ch)),
      getMessageResponse =
        (\<lambda>m. Inr \<lparr>mr_guid = msg_guid m, mr_text = msg_text m, tempGuid = JUndefined\<rparr>),
      ChatInterface_get = sample_get,
      ChatInterface_setDisplayName =
        (\<lambda>ch dn. ([Submit KRename (guid ch)],
                   Inr (ch\<lparr>displayName := (case dn of JStr s \<Rightarrow> Some s | _ \<Rightarrow> displayName ch)\<rparr>))),
      ChatInterface_create = (\<lambda>p. ([Submit KCreate []], Inr (Some chat_solo))),
      ChatInterface_toggleParticipant = (\<lambda>ch a t. ([], Inr ch)),
      markChatRead = (\<lambda>g. ([Submit KMarkRead g], Inr ())),
      emitMessage = (\<lambda>n p. Inr ()),
      isNotEmpty_value = truthy,
      safeTrim = (\<lambda>s. s),
      Number_parseInt = (\<lambda>v. case v of JNum n \<Rightarrow> Some n | _ \<Rightarrow> None)\<rparr>"

definition failing_rename_env :: env where
  "failing_rename_env =
     sample_env\<lparr>ChatInterface_setDisplayName :=
       (\<lambda>ch dn. ([Submit KRename (guid ch)], Inl (ErrorObject ''Error'' ''rename failed'')))\<rparr>"

definition chat_proto :: chat where
  "chat_proto = \<lparr>guid = ''g4'', displayName = None, serviceName = ''__proto__'',
                  participants = [''y'']\<rparr>"

definition proto_env :: env where
  "proto_env = sample_env\<lparr>getChats := (\<lambda>q. Inr [chat_proto])\<rparr>"

definition ctx_of :: "string \<Rightarrow> string option \<Rightarrow> jsobj option \<Rightarrow> ctx" where
  "ctx_of g w b = \<lparr>params_guid = g, query_with = w, body = b\<rparr>"

text \<open>Whether a trace holds the call that attempts the rename.\<close>

fun is_setDisplayName :: "event \<Rightarrow> bool" where
  "is_setDisplayName (CI_setDisplayName c d) = True"
| "is_setDisplayName e = False"

definition attempted_setDisplayName :: "event list \<Rightarrow> bool" where
  "attempted_setDisplayName tr = list_ex is_setDisplayName tr"

section \<open>Names for what the handlers build\<close>

text \<open>The number of chats of a service.\<close>

definition chats_of :: "string \<Rightarrow> chat list \<Rightarrow> nat" where
  "chats_of s cs = length (filter (\<lambda>c. serviceName c = s) cs)"

text \<open>
  The query and the flag that \<^verbatim>\<open>find\<close> derives from its request through its own parsing
  (\<open>withQuery_of_string\<close>).
\<close>

definition find_query :: "env \<Rightarrow> ctx \<Rightarrow> chat_query" where
  "find_query env c =
     \<lparr>chatGuid = params_guid c,
      withParticipants = (''participants'' \<in> set (withQuery_of_string env (query_with c)))\<rparr>"

definition find_withLastMessage :: "env \<Rightarrow> ctx \<Rightarrow> bool" where
  "find_withLastMessage env c = (''lastmessage'' \<in> set (withQuery_of_string env (query_with c)))"

text \<open>
  The request as the spec writes it, \<^verbatim>\<open>GET /chats/{guid}?with=participants,lastMessage\<close>:
  the raw \<^verbatim>\<open>with\<close> string is a comma-separated list of relation names. \<open>with_items_from\<close>
  scans the raw string once, collecting the current item; a relation is requested when one
  of the items is its name, letter case and what \<^verbatim>\<open>safeTrim\<close> removes aside. These
  definitions do not use the handler's own parsing; lemma \<open>requested_iff\<close> compares the two.
\<close>

fun with_items_from :: "string \<Rightarrow> string \<Rightarrow> string list" where
  "with_items_from cur [] = [rev cur]"
| "with_items_from cur (x # xs) =
     (if x = CHR '','' then rev cur # with_items_from [] xs else with_items_from (x # cur) xs)"

definition relation_requested :: "env \<Rightarrow> string option \<Rightarrow> string \<Rightarrow> bool" where
  "relation_requested env w name =
     (\<exists>item \<in> set (with_items_from [] (case w of None \<Rightarrow> [] | Some s \<Rightarrow> s)).
        safeTrim env (toLowerCase item) = name)"

definition requested_query :: "env \<Rightarrow> ctx \<Rightarrow> chat_query" where
  "requested_query env c =
     \<lparr>chatGuid = params_guid c,
      withParticipants = relation_requested env (query_with c) ''participants''\<rparr>"

text \<open>The query of \<^verbatim>\<open>update\<close> and \<^verbatim>\<open>toggleParticipant\<close>, and the parameters of \<^verbatim>\<open>create\<close>.\<close>

definition guid_query :: "ctx \<Rightarrow> chat_query" where
  "guid_query c = \<lparr>chatGuid = params_guid c, withParticipants = True\<rparr>"

definition create_request :: "ctx \<Rightarrow> create_params" where
  "create_request c =
     \<lparr>cp_addresses = opt_field (body c) ''addresses'',
      cp_message = opt_field (body c) ''message'',
      cp_method = opt_field (body c) ''method'',
      cp_service = opt_field (body c) ''service'',
      cp_tempGuid = opt_field (body c) ''tempGuid''\<rparr>"

section \<open>The count summary\<close>

lemmas io_defs = io_return_def io_throw_def io_bind_def lift_def await_read_def await_call_def

lemma count_entry_present:
  "k \<noteq> ''__proto__'' \<Longrightarrow> (if sc k = None then obj_set sc k (0::nat) else sc) k \<noteq> None"
  by (simp add: obj_set_def)

lemma count_loop_proto:
  "sc ''__proto__'' = None \<Longrightarrow> count_loop cs sc ''__proto__'' = None"
  by (induction cs arbitrary: sc) (auto simp add: obj_set_def Let_def split: option.splits)

lemma count_loop_entry:
  "s \<noteq> ''__proto__'' \<Longrightarrow>
   count_loop cs sc s =
     (case sc s of
        Some m \<Rightarrow> Some (m + chats_of s cs)
      | None \<Rightarrow> if chats_of s cs = 0 then None else Some (chats_of s cs))"
proof (induction cs arbitrary: sc)
  case Nil
  then show ?case by (simp add: chats_of_def split: option.splits)
next
  case (Cons c cs)
  then show ?case
    by (auto simp add: obj_set_def Let_def chats_of_def split: option.splits)
qed

lemma count_loop_empty:
  "count_loop cs Map.empty s =
     (if s \<noteq> ''__proto__'' \<and> s \<in> serviceName ` set cs then Some (chats_of s cs) else None)"
proof (cases "s = ''__proto__''")
  case True
  then show ?thesis by (simp add: count_loop_proto)
next
  case False
  have "chats_of s cs = 0 \<longleftrightarrow> s \<notin> serviceName ` set cs"
    by (auto simp add: chats_of_def filter_empty_conv)
  with False show ?thesis by (simp add: count_loop_entry)
qed

lemma sum_chats_of:
  "finite S \<Longrightarrow> serviceName ` set cs \<subseteq> S \<Longrightarrow> (\<Sum>s\<in>S. chats_of s cs) = length cs"
proof (induction cs)
  case Nil
  then show ?case by (simp add: chats_of_def)
next
  case (Cons c cs)
  have "(\<Sum>s\<in>S. chats_of s (c # cs)) = (\<Sum>s\<in>S. chats_of s cs + (if s = serviceName c then 1 else 0))"
    by (rule sum.cong) (auto simp add: chats_of_def)
  also have "\<dots> = (\<Sum>s\<in>S. chats_of s cs) + (\<Sum>s\<in>S. if s = serviceName c then 1 else 0)"
    by (simp add: sum.distrib)
  also have "\<dots> = length cs + 1"
    using Cons by simp
  finally show ?case by simp
qed

lemma count_loop_dom:
  "dom (count_loop cs Map.empty) = serviceName ` set cs - {''__proto__''}"
  by (auto simp add: dom_def count_loop_empty)

lemma count_loop_sum:
  assumes "''__proto__'' \<notin> serviceName ` set cs"
  shows "(\<Sum>s\<in>dom (count_loop cs Map.empty). the (count_loop cs Map.empty s)) = length cs"
proof -
  have d: "dom (count_loop cs Map.empty) = serviceName ` set cs"
    using assms by (simp add: count_loop_dom)
  have "(\<Sum>s\<in>serviceName ` set cs. the (count_loop cs Map.empty s))
          = (\<Sum>s\<in>serviceName ` set cs. chats_of s cs)"
  proof (rule sum.cong)
    fix s
    assume m: "s \<in> serviceName ` set cs"
    then have "s \<noteq> ''__proto__''" using assms by blast
    with m show "the (count_loop cs Map.empty s) = chats_of s cs"
      by (simp add: count_loop_empty)
  qed simp
  then show ?thesis by (simp add: d sum_chats_of)
qed

lemma count_answer:
  "getChats env None = Inr chats \<Longrightarrow>
   ChatRouter_count env =
     ([Repo_getChats None],
      Inr \<lparr>message = None,
           data = Some \<lparr>total = length chats, breakdown = count_loop chats Map.empty\<rparr>,
           metadata = None\<rparr>)"
  by (simp add: ChatRouter_count_def io_defs)

text \<open>
  What \<^verbatim>\<open>count\<close> answers for every chat list: \<open>total\<close> is the number of chats, and a
  service name is a key of \<open>breakdown\<close>, with the number of its chats, exactly when some
  chat has it and it is not \<^verbatim>\<open>__proto__\<close>. When no chat has the service name
  \<^verbatim>\<open>__proto__\<close>, the counts add up to \<open>total\<close>.
\<close>

lemma count_summary_plain:
  assumes "getChats env None = Inr chats"
  shows "ChatRouter_count env =
           ([Repo_getChats None],
            Inr \<lparr>message = None,
                 data = Some \<lparr>total = length chats, breakdown = count_loop chats Map.empty\<rparr>,
                 metadata = None\<rparr>)
         \<and> (\<forall>s. count_loop chats Map.empty s =
                  (if s \<noteq> ''__proto__'' \<and> s \<in> serviceName ` set chats
                   then Some (chats_of s chats) else None))
         \<and> (''__proto__'' \<notin> serviceName ` set chats \<longrightarrow>
              (\<Sum>s\<in>dom (count_loop chats Map.empty). the (count_loop chats Map.empty s))
                = length chats)"
proof (intro conjI allI impI)
  show "ChatRouter_count env =
           ([Repo_getChats None],
            Inr \<lparr>message = None,
                 data = Some \<lparr>total = length chats, breakdown = count_loop chats Map.empty\<rparr>,
                 metadata = None\<rparr>)"
    using assms by (rule count_answer)
next
  fix s
  show "count_loop chats Map.empty s =
          (if s \<noteq> ''__proto__'' \<and> s \<in> serviceName ` set chats
           then Some (chats_of s chats) else None)"
    by (rule count_loop_empty)
next
  assume "''__proto__'' \<notin> serviceName ` set chats"
  then show "(\<Sum>s\<in>dom (count_loop chats Map.empty). the (count_loop chats Map.empty s))
                = length chats"
    by (rule count_loop_sum)
qed

lemma count_summary_sample:
  "ChatRouter_count sample_env =
       ([Repo_getChats None],
        Inr \<lparr>message = None,
             data = Some \<lparr>total = 3, breakdown = [''iMessage'' \<mapsto> 2, ''SMS'' \<mapsto> 1]\<rparr>,
             metadata = None\<rparr>)"
proof -
  have h: "getChats sample_env None = Inr sample_store"
    by (simp add: sample_env_def sample_getChats_def)
  have c: "count_loop sample_store Map.empty = [''iMessage'' \<mapsto> 2, ''SMS'' \<mapsto> 1]"
    by (simp add: sample_store_def chat_solo_def chat_team_def chat_sms_def obj_set_def
          numeral_2_eq_2)
  have l: "length sample_store = 3" by (simp add: sample_store_def)
  show ?thesis using count_summary_plain [OF h] by (simp add: c l)
qed

text \<open>
  C5. The claim fails on the code for a chat whose service name is \<^verbatim>\<open>__proto__\<close>: the
  store holds this one chat, \<open>total\<close> is 1, and the breakdown has no key at all, where the
  claim asks for the key \<^verbatim>\<open>__proto__\<close> with count 1 and for counts that add up to \<open>total\<close>.
\<close>

theorem count_proto_key_dropped:
  "ChatRouter_count proto_env =
     ([Repo_getChats None],
      Inr \<lparr>message = None, data = Some \<lparr>total = 1, breakdown = Map.empty\<rparr>, metadata = None\<rparr>)"
proof -
  have h: "getChats proto_env None = Inr [chat_proto]"
    by (simp add: proto_env_def)
  have c: "count_loop [chat_proto] Map.empty = Map.empty"
    by (simp add: chat_proto_def obj_set_def Let_def)
  show ?thesis unfolding count_answer [OF h] c by simp
qed

section \<open>Looking up one chat\<close>

lemma find_absent:
  "getChats env (Some (find_query env c)) = Inr [] \<Longrightarrow>
   ChatRouter_find env c =
     ([Repo_getChats (Some (find_query env c))], Inl (NotFound None ''Chat does not exist!''))"
  by (simp add: ChatRouter_find_def find_query_def io_defs isEmpty_def Let_def)

lemma find_thrown:
  "getChats env (Some (find_query env c)) = Inl t \<Longrightarrow>
   ChatRouter_find env c = ([Repo_getChats (Some (find_query env c))], Inl (Propagated t))"
  by (simp add: ChatRouter_find_def find_query_def io_defs isEmpty_def Let_def)

lemma find_present_outcome:
  "getChats env (Some (find_query env c)) = Inr (ch # rest) \<Longrightarrow>
   (\<exists>r. snd (ChatRouter_find env c) = Inr r) \<or> (\<exists>t. snd (ChatRouter_find env c) = Inl (Propagated t))"
  by (auto simp add: ChatRouter_find_def find_query_def io_defs isEmpty_def Let_def
        split: sum.splits prod.splits)

lemma find_present_plain:
  "getChats env (Some (find_query env c)) = Inr (ch # rest) \<Longrightarrow>
   getChatResponse env ch = Inr res \<Longrightarrow> \<not> find_withLastMessage env c \<Longrightarrow>
   ChatRouter_find env c =
     ([Repo_getChats (Some (find_query env c))],
      Inr \<lparr>message = None, data = Some res, metadata = None\<rparr>)"
  by (simp add: ChatRouter_find_def find_query_def find_withLastMessage_def io_defs isEmpty_def Let_def)

lemma find_present_last:
  "getChats env (Some (find_query env c)) = Inr (ch # rest) \<Longrightarrow>
   getChatResponse env ch = Inr res \<Longrightarrow> find_withLastMessage env c \<Longrightarrow>
   getChatLastMessage env (params_guid c) = Inr m \<Longrightarrow> getMessageResponse env m = Inr mr \<Longrightarrow>
   ChatRouter_find env c =
     ([Repo_getChats (Some (find_query env c)), Repo_getChatLastMessage (params_guid c)],
      Inr \<lparr>message = None, data = Some (res\<lparr>lastMessage := Some mr\<rparr>), metadata = None\<rparr>)"
  by (simp add: ChatRouter_find_def find_query_def find_withLastMessage_def io_defs isEmpty_def Let_def)

subsection \<open>The raw \<^verbatim>\<open>with\<close> string and the handler's parsing\<close>

lemma split_nonempty: "split c s \<noteq> []"
  by (induction s) (auto split: list.splits)

lemma lower_comma: "toLowerCase_char x = CHR '','' \<longleftrightarrow> x = CHR '',''"
proof
  assume a: "toLowerCase_char x = CHR '',''"
  show "x = CHR '',''"
  proof (cases "65 \<le> (of_char x :: nat) \<and> (of_char x :: nat) \<le> 90")
    case True
    then have "toLowerCase_char x = char_of ((of_char x :: nat) + 32)"
      by (simp add: toLowerCase_char_def Let_def)
    with a have "(of_char (char_of ((of_char x :: nat) + 32)) :: nat) = of_char (CHR '','')"
      by simp
    with True show ?thesis by simp
  next
    case False
    with a show ?thesis by (simp add: toLowerCase_char_def Let_def)
  qed
next
  assume "x = CHR '',''"
  then show "toLowerCase_char x = CHR '',''" by (simp add: toLowerCase_char_def)
qed

lemma split_lower:
  "split CHR '','' (toLowerCase s) = map toLowerCase (split CHR '','' s)"
proof (induction s)
  case Nil
  then show ?case by (simp add: toLowerCase_def)
next
  case (Cons x xs)
  obtain w ws where sp: "split CHR '','' xs = w # ws"
    using split_nonempty [of "CHR '',''" xs] by (cases "split CHR '','' xs") auto
  show ?case using Cons sp by (simp add: toLowerCase_def lower_comma)
qed

lemma items_split:
  "with_items_from cur s = (rev cur @ hd (split CHR '','' s)) # tl (split CHR '','' s)"
proof (induction s arbitrary: cur)
  case Nil
  then show ?case by simp
next
  case (Cons x xs)
  obtain w ws where sp: "split CHR '','' xs = w # ws"
    using split_nonempty [of "CHR '',''" xs] by (cases "split CHR '','' xs") auto
  show ?case using Cons sp by simp
qed

lemma items_eq_split: "with_items_from [] s = split CHR '','' s"
  using split_nonempty [of "CHR '',''" s] by (simp add: items_split)

lemma requested_iff:
  "relation_requested env w name \<longleftrightarrow> name \<in> set (withQuery_of_string env w)"
  by (auto simp add: relation_requested_def withQuery_of_string_def items_eq_split split_lower)

lemma find_query_requested: "find_query env c = requested_query env c"
  by (simp add: find_query_def requested_query_def requested_iff)

lemma find_last_requested:
  "find_withLastMessage env c = relation_requested env (query_with c) ''lastmessage''"
  by (simp add: find_withLastMessage_def requested_iff)

lemma spec_request_parsed:
  assumes "safeTrim env ''participants'' = ''participants''"
    and "safeTrim env ''lastmessage'' = ''lastmessage''"
  shows "relation_requested env (Some ''participants,lastMessage'') ''participants''
         \<and> relation_requested env (Some ''participants,lastMessage'') ''lastmessage''"
proof -
  have i: "with_items_from [] ''participants,lastMessage'' = [''participants'', ''lastMessage'']"
    by simp
  have p: "toLowerCase ''participants'' = ''participants''" by code_simp
  have l: "toLowerCase ''lastMessage'' = ''lastmessage''" by code_simp
  show ?thesis using assms unfolding relation_requested_def by (simp only: option.case i list.set bex_simps insert_iff empty_iff p l simp_thms)
qed

text \<open>
  C6. \<^verbatim>\<open>find\<close> fails with NotFound exactly when the repository returns no chat for the
  guid. When it returns one and the response is built, the answer is that chat; when
  \<open>lastmessage\<close> is an item of the raw \<^verbatim>\<open>with\<close> string, the handler makes a second query,
  \<^verbatim>\<open>getChatLastMessage\<close> for the same guid, and attaches its converted result. For the
  request \<^verbatim>\<open>?with=participants,lastMessage\<close> both relations are requested, provided
  \<^verbatim>\<open>safeTrim\<close> leaves the two names as they are.
\<close>

theorem find_not_found_iff:
  "((\<exists>msg e. snd (ChatRouter_find env c) = Inl (NotFound msg e))
      \<longleftrightarrow> getChats env (Some (requested_query env c)) = Inr [])
   \<and> (\<forall>ch rest res.
         getChats env (Some (requested_query env c)) = Inr (ch # rest)
         \<and> getChatResponse env ch = Inr res
         \<longrightarrow> (\<not> relation_requested env (query_with c) ''lastmessage'' \<longrightarrow>
                ChatRouter_find env c =
                  ([Repo_getChats (Some (requested_query env c))],
                   Inr \<lparr>message = None, data = Some res, metadata = None\<rparr>))
           \<and> (relation_requested env (query_with c) ''lastmessage'' \<longrightarrow>
                (\<forall>m mr. getChatLastMessage env (params_guid c) = Inr m
                          \<and> getMessageResponse env m = Inr mr \<longrightarrow>
                   ChatRouter_find env c =
                     ([Repo_getChats (Some (requested_query env c)),
                       Repo_getChatLastMessage (params_guid c)],
                      Inr \<lparr>message = None, data = Some (res\<lparr>lastMessage := Some mr\<rparr>),
                           metadata = None\<rparr>))))
   \<and> (query_with c = Some ''participants,lastMessage''
        \<and> safeTrim env ''participants'' = ''participants''
        \<and> safeTrim env ''lastmessage'' = ''lastmessage''
        \<longrightarrow> requested_query env c = \<lparr>chatGuid = params_guid c, withParticipants = True\<rparr>
            \<and> relation_requested env (query_with c) ''lastmessage'')"
proof -
  have iff: "(\<exists>msg e. snd (ChatRouter_find env c) = Inl (NotFound msg e))
      \<longleftrightarrow> getChats env (Some (find_query env c)) = Inr []"
  proof (cases "getChats env (Some (find_query env c))")
    case (Inl t)
    then show ?thesis by (simp add: find_thrown)
  next
    case (Inr chats)
    show ?thesis
    proof (cases chats)
      case Nil
      with Inr show ?thesis by (simp add: find_absent)
    next
      case (Cons ch rest)
      with Inr find_present_outcome [of env c ch rest] show ?thesis by auto
    qed
  qed
  have parsed: "query_with c = Some ''participants,lastMessage''
        \<and> safeTrim env ''participants'' = ''participants''
        \<and> safeTrim env ''lastmessage'' = ''lastmessage''
        \<longrightarrow> requested_query env c = \<lparr>chatGuid = params_guid c, withParticipants = True\<rparr>
            \<and> relation_requested env (query_with c) ''lastmessage''"
    using spec_request_parsed [of env] by (auto simp add: requested_query_def)
  have rest: "\<forall>ch rest res.
         getChats env (Some (find_query env c)) = Inr (ch # rest)
         \<and> getChatResponse env ch = Inr res
         \<longrightarrow> (\<not> find_withLastMessage env c \<longrightarrow>
                ChatRouter_find env c =
                  ([Repo_getChats (Some (find_query env c))],
                   Inr \<lparr>message = None, data = Some res, metadata = None\<rparr>))
           \<and> (find_withLastMessage env c \<longrightarrow>
                (\<forall>m mr. getChatLastMessage env (params_guid c) = Inr m
                          \<and> getMessageResponse env m = Inr mr \<longrightarrow>
                   ChatRouter_find env c =
                     ([Repo_getChats (Some (find_query env c)),
                       Repo_getChatLastMessage (params_guid c)],
                      Inr \<lparr>message = None, data = Some (res\<lparr>lastMessage := Some mr\<rparr>),
                           metadata = None\<rparr>)))"
    using find_present_plain [of env c] find_present_last [of env c] by blast
  show ?thesis
    using iff rest parsed
    unfolding find_query_requested find_last_requested
    by blast
qed

theorem find_not_found_iff_witness:
  "ChatRouter_find sample_env (ctx_of ''g1'' (Some ''participants,lastMessage'') None) =
     ([Repo_getChats (Some \<lparr>chatGuid = ''g1'', withParticipants = True\<rparr>),
       Repo_getChatLastMessage ''g1''],
      Inr \<lparr>message = None,
           data = Some ((sample_response chat_solo)
                          \<lparr>lastMessage := Some \<lparr>mr_guid = ''m9'', mr_text = ''last'',
                                                tempGuid = JUndefined\<rparr>\<rparr>),
           metadata = None\<rparr>)
   \<and> getChats sample_env (Some (requested_query sample_env (ctx_of ''g7'' None None))) = Inr []
   \<and> (\<exists>msg e. snd (ChatRouter_find sample_env (ctx_of ''g7'' None None)) = Inl (NotFound msg e))"
proof -
  let ?c = "ctx_of ''g1'' (Some ''participants,lastMessage'') None"
  have qw: "query_with ?c = Some ''participants,lastMessage''" by (simp add: ctx_of_def)
  have pg: "params_guid ?c = ''g1''" by (simp add: ctx_of_def)
  have t1: "safeTrim sample_env ''participants'' = ''participants''"
    by (simp add: sample_env_def)
  have t2: "safeTrim sample_env ''lastmessage'' = ''lastmessage''"
    by (simp add: sample_env_def)
  from find_not_found_iff [of sample_env ?c] qw t1 t2
  have q: "requested_query sample_env ?c = \<lparr>chatGuid = ''g1'', withParticipants = True\<rparr>"
    and l: "relation_requested sample_env (query_with ?c) ''lastmessage''"
    unfolding pg by blast+
  have g: "getChats sample_env (Some (requested_query sample_env ?c)) = Inr [chat_solo]"
    unfolding q
    by (simp add: sample_env_def sample_getChats_def sample_store_def
          chat_solo_def chat_team_def chat_sms_def)
  have r: "getChatResponse sample_env chat_solo = Inr (sample_response chat_solo)"
    by (simp add: sample_env_def)
  have m: "getChatLastMessage sample_env (params_guid ?c) = Inr \<lparr>msg_guid = ''m9'', msg_text = ''last''\<rparr>"
    by (simp add: sample_env_def)
  have mr: "getMessageResponse sample_env \<lparr>msg_guid = ''m9'', msg_text = ''last''\<rparr>
              = Inr \<lparr>mr_guid = ''m9'', mr_text = ''last'', tempGuid = JUndefined\<rparr>"
    by (simp add: sample_env_def)
  have q7: "requested_query sample_env (ctx_of ''g7'' None None)
              = \<lparr>chatGuid = ''g7'', withParticipants = False\<rparr>"
    by (simp add: requested_query_def relation_requested_def ctx_of_def toLowerCase_def
          sample_env_def)
  have g7: "getChats sample_env (Some (requested_query sample_env (ctx_of ''g7'' None None))) = Inr []"
    unfolding q7
    by (simp add: sample_env_def sample_getChats_def sample_store_def
          chat_solo_def chat_team_def chat_sms_def)
  from find_not_found_iff [of sample_env ?c] g r l m mr
  have a: "ChatRouter_find sample_env ?c =
     ([Repo_getChats (Some (requested_query sample_env ?c)), Repo_getChatLastMessage (params_guid ?c)],
      Inr \<lparr>message = None,
           data = Some ((sample_response chat_solo)
                          \<lparr>lastMessage := Some \<lparr>mr_guid = ''m9'', mr_text = ''last'',
                                                tempGuid = JUndefined\<rparr>\<rparr>),
           metadata = None\<rparr>)"
    by blast
  from find_not_found_iff [of sample_env "ctx_of ''g7'' None None"] g7
  have b: "\<exists>msg e. snd (ChatRouter_find sample_env (ctx_of ''g7'' None None)) = Inl (NotFound msg e)"
    by blast
  show ?thesis using a b g7 by (simp add: q pg)
qed

section \<open>Updating a chat\<close>

lemma update_step:
  "getChats env (Some (guid_query c)) = Inr (ch # rest) \<Longrightarrow>
   ChatRouter_update env c =
     io_bind ([Repo_getChats (Some (guid_query c))], Inr (ch # rest)) (\<lambda>chats.
       io_bind (update_displayName env ch (opt_field (body c) ''displayName''))
         (\<lambda>(ch', updated, errors).
            if isNotEmpty errors
            then io_throw (IMessageError (Some ''Chat update executed with errors!'')
                             (join '', '' errors))
            else
              io_bind (lift (getChatResponse env ch')) (\<lambda>d.
                if isEmpty updated
                then io_return \<lparr>message = Some ''Chat not updated! No update information provided!'',
                                 data = Some d, metadata = None\<rparr>
                else io_return
                       \<lparr>message = Some (''Successfully updated the following fields: ''
                                          @ join '', '' updated),
                        data = Some d, metadata = None\<rparr>)))"
  by (simp add: ChatRouter_update_def guid_query_def Let_def isEmpty_def await_read_def io_bind_def)

lemma update_not_group:
  "getChats env (Some (guid_query c)) = Inr (ch # rest) \<Longrightarrow>
   truthy (opt_field (body c) ''displayName'') \<Longrightarrow> length (participants ch) \<le> 1 \<Longrightarrow>
   ChatRouter_update env c =
     ([Repo_getChats (Some (guid_query c))],
      Inl (IMessageError (Some ''Cannot rename a non-group chat!'') ''Chat is not a group''))"
  by (simp add: update_step update_displayName_def io_defs)

lemma update_nothing:
  "getChats env (Some (guid_query c)) = Inr (ch # rest) \<Longrightarrow>
   \<not> truthy (opt_field (body c) ''displayName'') \<Longrightarrow> getChatResponse env ch = Inr d \<Longrightarrow>
   ChatRouter_update env c =
     ([Repo_getChats (Some (guid_query c))],
      Inr \<lparr>message = Some ''Chat not updated! No update information provided!'',
           data = Some d, metadata = None\<rparr>)"
  by (simp add: update_step update_displayName_def io_defs isEmpty_def isNotEmpty_def)

lemma update_failed:
  "getChats env (Some (guid_query c)) = Inr (ch # rest) \<Longrightarrow>
   truthy (opt_field (body c) ''displayName'') \<Longrightarrow> 1 < length (participants ch) \<Longrightarrow>
   ChatInterface_setDisplayName env ch (opt_field (body c) ''displayName'') = (tr, Inl ex) \<Longrightarrow>
   ChatRouter_update env c =
     (Repo_getChats (Some (guid_query c)) # CI_setDisplayName ch (opt_field (body c) ''displayName'') # tr,
      Inl (IMessageError (Some ''Chat update executed with errors!'') (ex_message ex)))"
  by (simp add: update_step update_displayName_def io_defs isEmpty_def isNotEmpty_def)

lemma update_done:
  "getChats env (Some (guid_query c)) = Inr (ch # rest) \<Longrightarrow>
   truthy (opt_field (body c) ''displayName'') \<Longrightarrow> 1 < length (participants ch) \<Longrightarrow>
   ChatInterface_setDisplayName env ch (opt_field (body c) ''displayName'') = (tr, Inr ch') \<Longrightarrow>
   getChatResponse env ch' = Inr d \<Longrightarrow>
   ChatRouter_update env c =
     (Repo_getChats (Some (guid_query c)) # CI_setDisplayName ch (opt_field (body c) ''displayName'') # tr,
      Inr \<lparr>message = Some ''Successfully updated the following fields: displayName'',
           data = Some d, metadata = None\<rparr>)"
  by (simp add: update_step update_displayName_def io_defs isEmpty_def isNotEmpty_def)

text \<open>
  C2. For a chat whose roster has at most one participant, an update that carries a
  truthy \<open>displayName\<close> fails with the router's invalid-operation error (an IMessageError,
  "Cannot rename a non-group chat!"). The check runs right after the chat is read: the
  trace holds the read and nothing else, so no mutating collaborator and no executor
  submission is reached.
\<close>

theorem rename_non_group_rejected:
  assumes "getChats env (Some (guid_query c)) = Inr (ch # rest)"
    and "length (participants ch) \<le> 1"
    and "truthy (opt_field (body c) ''displayName'')"
  shows "ChatRouter_update env c =
           ([Repo_getChats (Some (guid_query c))],
            Inl (IMessageError (Some ''Cannot rename a non-group chat!'') ''Chat is not a group''))
         \<and> filter is_mutation (fst (ChatRouter_update env c)) = []"
  using assms by (simp add: update_not_group)

theorem rename_non_group_rejected_witness:
  "getChats sample_env (Some (guid_query (ctx_of ''g1'' None (Some [(''displayName'', JStr ''Team'')]))))
     = Inr [chat_solo]
   \<and> length (participants chat_solo) \<le> 1
   \<and> truthy (opt_field (body (ctx_of ''g1'' None (Some [(''displayName'', JStr ''Team'')]))) ''displayName'')
   \<and> ChatRouter_update sample_env (ctx_of ''g1'' None (Some [(''displayName'', JStr ''Team'')])) =
       ([Repo_getChats (Some \<lparr>chatGuid = ''g1'', withParticipants = True\<rparr>)],
        Inl (IMessageError (Some ''Cannot rename a non-group chat!'') ''Chat is not a group''))"
proof -
  let ?c = "ctx_of ''g1'' None (Some [(''displayName'', JStr ''Team'')])"
  have q: "guid_query ?c = \<lparr>chatGuid = ''g1'', withParticipants = True\<rparr>"
    by (simp add: guid_query_def ctx_of_def)
  have g: "getChats sample_env (Some (guid_query ?c)) = Inr [chat_solo]"
    unfolding q
    by (simp add: sample_env_def sample_getChats_def sample_store_def
          chat_solo_def chat_team_def chat_sms_def)
  have p: "length (participants chat_solo) \<le> 1" by (simp add: chat_solo_def)
  have t: "truthy (opt_field (body ?c) ''displayName'')"
    by (simp add: ctx_of_def opt_field_def)
  show ?thesis using g p t rename_non_group_rejected [OF g p t] by (simp add: q)
qed

text \<open>
  C10. For an existing chat, an update whose \<open>displayName\<close> is missing or falsy succeeds:
  the answer is the response built from the chat as it was read, with the message that no
  update information was provided, and the trace holds the read only.
\<close>

theorem update_without_fields:
  assumes "getChats env (Some (guid_query c)) = Inr (ch # rest)"
    and "\<not> truthy (opt_field (body c) ''displayName'')"
    and "getChatResponse env ch = Inr d"
  shows "ChatRouter_update env c =
           ([Repo_getChats (Some (guid_query c))],
            Inr \<lparr>message = Some ''Chat not updated! No update information provided!'',
                 data = Some d, metadata = None\<rparr>)
         \<and> filter is_mutation (fst (ChatRouter_update env c)) = []"
  using assms by (simp add: update_nothing)

theorem update_without_fields_witness:
  "getChats sample_env (Some (guid_query (ctx_of ''g2'' None (Some [(''displayName'', JStr [])]))))
     = Inr [chat_team]
   \<and> \<not> truthy (opt_field (body (ctx_of ''g2'' None (Some [(''displayName'', JStr [])]))) ''displayName'')
   \<and> ChatRouter_update sample_env (ctx_of ''g2'' None (Some [(''displayName'', JStr [])])) =
       ([Repo_getChats (Some \<lparr>chatGuid = ''g2'', withParticipants = True\<rparr>)],
        Inr \<lparr>message = Some ''Chat not updated! No update information provided!'',
             data = Some (sample_response chat_team), metadata = None\<rparr>)"
proof -
  let ?c = "ctx_of ''g2'' None (Some [(''displayName'', JStr [])])"
  have q: "guid_query ?c = \<lparr>chatGuid = ''g2'', withParticipants = True\<rparr>"
    by (simp add: guid_query_def ctx_of_def)
  have g: "getChats sample_env (Some (guid_query ?c)) = Inr [chat_team]"
    unfolding q
    by (simp add: sample_env_def sample_getChats_def sample_store_def
          chat_solo_def chat_team_def chat_sms_def)
  have t: "\<not> truthy (opt_field (body ?c) ''displayName'')"
    by (simp add: ctx_of_def opt_field_def)
  have r: "getChatResponse sample_env chat_team = Inr (sample_response chat_team)"
    by (simp add: sample_env_def)
  show ?thesis using g t update_without_fields [OF g t r] by (simp add: q)
qed

text \<open>
  C4, as stated, fails: renaming the one-participant chat \<open>g1\<close> requests the field
  \<open>displayName\<close>, yet the rename is never attempted and the handler ends with the
  guard's own error, not with an aggregate over the fields.
\<close>

theorem update_aborts_counterexample:
  "truthy (opt_field (body (ctx_of ''g1'' None (Some [(''displayName'', JStr ''Team'')]))) ''displayName'')
   \<and> \<not> attempted_setDisplayName
         (fst (ChatRouter_update sample_env (ctx_of ''g1'' None (Some [(''displayName'', JStr ''Team'')]))))
   \<and> snd (ChatRouter_update sample_env (ctx_of ''g1'' None (Some [(''displayName'', JStr ''Team'')])))
       = Inl (IMessageError (Some ''Cannot rename a non-group chat!'') ''Chat is not a group'')"
proof -
  let ?c = "ctx_of ''g1'' None (Some [(''displayName'', JStr ''Team'')])"
  have q: "guid_query ?c = \<lparr>chatGuid = ''g1'', withParticipants = True\<rparr>"
    by (simp add: guid_query_def ctx_of_def)
  have g: "getChats sample_env (Some (guid_query ?c)) = Inr [chat_solo]"
    unfolding q
    by (simp add: sample_env_def sample_getChats_def sample_store_def
          chat_solo_def chat_team_def chat_sms_def)
  have p: "length (participants chat_solo) \<le> 1" by (simp add: chat_solo_def)
  have t: "truthy (opt_field (body ?c) ''displayName'')"
    by (simp add: ctx_of_def opt_field_def)
  show ?thesis using t update_not_group [OF g t p] by (simp add: attempted_setDisplayName_def)
qed

lemma update_attempts:
  assumes "getChats env (Some (guid_query c)) = Inr (ch # rest)"
    and "truthy (opt_field (body c) ''displayName'')"
    and "1 < length (participants ch)"
  shows "attempted_setDisplayName (fst (ChatRouter_update env c))"
proof -
  obtain tr r where s: "ChatInterface_setDisplayName env ch (opt_field (body c) ''displayName'') = (tr, r)"
    by (cases "ChatInterface_setDisplayName env ch (opt_field (body c) ''displayName'')")
  show ?thesis
  proof (cases r)
    case (Inl ex)
    with s assms show ?thesis by (simp add: update_failed attempted_setDisplayName_def)
  next
    case (Inr ch')
    with s assms show ?thesis
      by (cases "getChatResponse env ch'")
         (simp_all add: update_step update_displayName_def io_defs isEmpty_def isNotEmpty_def
            attempted_setDisplayName_def)
  qed
qed

text \<open>
  C4, amended. \<^verbatim>\<open>update\<close> knows one field, \<open>displayName\<close>. On a chat with at most one
  participant a truthy \<open>displayName\<close> ends the handler at once with "Cannot rename a
  non-group chat!". On a chat with two or more participants the rename is always
  attempted; an exception of the rename is caught and the handler then fails with the
  aggregate error "Chat update executed with errors!" that carries the exception's
  message; when the rename returns and the response is built, the answer reports
  \<open>displayName\<close> as updated.
\<close>

theorem update_single_field_report:
  assumes "getChats env (Some (guid_query c)) = Inr (ch # rest)"
    and "truthy (opt_field (body c) ''displayName'')"
  shows "(length (participants ch) \<le> 1 \<longrightarrow>
            ChatRouter_update env c =
              ([Repo_getChats (Some (guid_query c))],
               Inl (IMessageError (Some ''Cannot rename a non-group chat!'') ''Chat is not a group'')))
         \<and> (1 < length (participants ch) \<longrightarrow>
              attempted_setDisplayName (fst (ChatRouter_update env c))
            \<and> (\<forall>tr ex. ChatInterface_setDisplayName env ch (opt_field (body c) ''displayName'')
                           = (tr, Inl ex) \<longrightarrow>
                 ChatRouter_update env c =
                   (Repo_getChats (Some (guid_query c))
                      # CI_setDisplayName ch (opt_field (body c) ''displayName'') # tr,
                    Inl (IMessageError (Some ''Chat update executed with errors!'') (ex_message ex))))
            \<and> (\<forall>tr ch' d. ChatInterface_setDisplayName env ch (opt_field (body c) ''displayName'')
                              = (tr, Inr ch') \<and> getChatResponse env ch' = Inr d \<longrightarrow>
                 ChatRouter_update env c =
                   (Repo_getChats (Some (guid_query c))
                      # CI_setDisplayName ch (opt_field (body c) ''displayName'') # tr,
                    Inr \<lparr>message = Some ''Successfully updated the following fields: displayName'',
                         data = Some d, metadata = None\<rparr>)))"
  using assms update_not_group [of env c ch rest] update_attempts [of env c ch rest]
    update_failed [of env c ch rest] update_done [of env c ch rest]
  by blast

theorem update_single_field_report_witness:
  "ChatRouter_update failing_rename_env (ctx_of ''g2'' None (Some [(''displayName'', JStr ''Team'')])) =
     ([Repo_getChats (Some \<lparr>chatGuid = ''g2'', withParticipants = True\<rparr>),
       CI_setDisplayName chat_team (JStr ''Team''), Submit KRename ''g2''],
      Inl (IMessageError (Some ''Chat update executed with errors!'') ''rename failed''))
   \<and> ChatRouter_update sample_env (ctx_of ''g2'' None (Some [(''displayName'', JStr ''Team'')])) =
     ([Repo_getChats (Some \<lparr>chatGuid = ''g2'', withParticipants = True\<rparr>),
       CI_setDisplayName chat_team (JStr ''Team''), Submit KRename ''g2''],
      Inr \<lparr>message = Some ''Successfully updated the following fields: displayName'',
           data = Some (sample_response (chat_team\<lparr>displayName := Some ''Team''\<rparr>)),
           metadata = None\<rparr>)"
proof -
  let ?c = "ctx_of ''g2'' None (Some [(''displayName'', JStr ''Team'')])"
  have q: "guid_query ?c = \<lparr>chatGuid = ''g2'', withParticipants = True\<rparr>"
    by (simp add: guid_query_def ctx_of_def)
  have dn: "opt_field (body ?c) ''displayName'' = JStr ''Team''"
    by (simp add: ctx_of_def opt_field_def)
  have t: "truthy (opt_field (body ?c) ''displayName'')"
    by (simp add: dn)
  have p: "1 < length (participants chat_team)" by (simp add: chat_team_def)
  have gt: "guid chat_team = ''g2''" by (simp add: chat_team_def)
  have g1: "getChats failing_rename_env (Some (guid_query ?c)) = Inr [chat_team]"
    unfolding q
    by (simp add: failing_rename_env_def sample_env_def sample_getChats_def sample_store_def
          chat_solo_def chat_team_def chat_sms_def)
  have s1: "ChatInterface_setDisplayName failing_rename_env chat_team (opt_field (body ?c) ''displayName'')
              = ([Submit KRename ''g2''], Inl (ErrorObject ''Error'' ''rename failed''))"
    by (simp add: failing_rename_env_def gt)
  have g2: "getChats sample_env (Some (guid_query ?c)) = Inr [chat_team]"
    unfolding q
    by (simp add: sample_env_def sample_getChats_def sample_store_def
          chat_solo_def chat_team_def chat_sms_def)
  have s2: "ChatInterface_setDisplayName sample_env chat_team (opt_field (body ?c) ''displayName'')
              = ([Submit KRename ''g2''], Inr (chat_team\<lparr>displayName := Some ''Team''\<rparr>))"
    unfolding dn by (simp add: sample_env_def gt)
  have r2: "getChatResponse sample_env (chat_team\<lparr>displayName := Some ''Team''\<rparr>)
              = Inr (sample_response (chat_team\<lparr>displayName := Some ''Team''\<rparr>))"
    by (simp add: sample_env_def)
  from update_single_field_report [OF g1 t] p s1
  have a: "ChatRouter_update failing_rename_env ?c =
             (Repo_getChats (Some (guid_query ?c))
                # CI_setDisplayName chat_team (opt_field (body ?c) ''displayName'') # [Submit KRename ''g2''],
              Inl (IMessageError (Some ''Chat update executed with errors!'')
                     (ex_message (ErrorObject ''Error'' ''rename failed''))))"
    by blast
  from update_single_field_report [OF g2 t] p s2 r2
  have b: "ChatRouter_update sample_env ?c =
             (Repo_getChats (Some (guid_query ?c))
                # CI_setDisplayName chat_team (opt_field (body ?c) ''displayName'') # [Submit KRename ''g2''],
              Inr \<lparr>message = Some ''Successfully updated the following fields: displayName'',
                   data = Some (sample_response (chat_team\<lparr>displayName := Some ''Team''\<rparr>)),
                   metadata = None\<rparr>)"
    by blast
  show ?thesis using a b by (simp add: q dn)
qed

section \<open>Creating a chat and marking it read\<close>

lemma create_result:
  "ChatInterface_create env (create_request c) = (tr, Inr (Some ch)) \<Longrightarrow>
   getChatResponse env ch = Inr d \<Longrightarrow>
   ChatRouter_create env c =
     (CI_create (create_request c) # tr,
      Inr \<lparr>message = Some ''Successfully created chat!'',
           data = Some (if isNotEmpty_value env (opt_field (body c) ''tempGuid'')
                        then stamp_tempGuid (opt_field (body c) ''tempGuid'') d else d),
           metadata = None\<rparr>)"
  by (simp add: ChatRouter_create_def create_request_def Let_def io_defs)

lemma stamp_messages:
  "messages (stamp_tempGuid tg d) = map_option (map (\<lambda>i. i\<lparr>tempGuid := tg\<rparr>)) (messages d)"
  by (simp add: stamp_tempGuid_def)

lemma stamp_all:
  "messages (stamp_tempGuid tg d) = Some ms \<Longrightarrow> m \<in> set ms \<Longrightarrow> tempGuid m = tg"
  by (auto simp add: stamp_tempGuid_def)

lemma stamp_rest: "(stamp_tempGuid tg d)\<lparr>messages := messages d\<rparr> = d"
  by (simp add: stamp_tempGuid_def)

lemma stamp_no_messages:
  "messages d = None \<or> messages d = Some [] \<Longrightarrow> stamp_tempGuid tg d = d"
  by (auto simp add: stamp_tempGuid_def)

text \<open>
  C1. When \<^verbatim>\<open>ChatInterface.create\<close> returns a chat and its response is built, \<^verbatim>\<open>create\<close>
  answers with that response. If the request's \<open>tempGuid\<close> counts as supplied (the
  helper \<^verbatim>\<open>isNotEmpty\<close> holds of it), every message of the answer carries exactly that
  \<open>tempGuid\<close>, the messages are otherwise the same and so is the rest of the response.
  If it does not count as supplied, or the response has no messages, the response is
  returned as built.
\<close>

theorem create_stamps_tempGuid:
  assumes "ChatInterface_create env (create_request c) = (tr, Inr (Some ch))"
    and "getChatResponse env ch = Inr d"
  shows "\<exists>d'. ChatRouter_create env c =
                (CI_create (create_request c) # tr,
                 Inr \<lparr>message = Some ''Successfully created chat!'', data = Some d',
                      metadata = None\<rparr>)
            \<and> (isNotEmpty_value env (opt_field (body c) ''tempGuid'') \<longrightarrow>
                  (\<forall>ms. messages d' = Some ms \<longrightarrow>
                     (\<forall>m \<in> set ms. tempGuid m = opt_field (body c) ''tempGuid''))
                \<and> messages d' =
                    map_option (map (\<lambda>i. i\<lparr>tempGuid := opt_field (body c) ''tempGuid''\<rparr>)) (messages d)
                \<and> d'\<lparr>messages := messages d\<rparr> = d)
            \<and> (\<not> isNotEmpty_value env (opt_field (body c) ''tempGuid'')
                  \<or> messages d = None \<or> messages d = Some [] \<longrightarrow> d' = d)"
proof (cases "isNotEmpty_value env (opt_field (body c) ''tempGuid'')")
  case True
  let ?d = "stamp_tempGuid (opt_field (body c) ''tempGuid'') d"
  have "ChatRouter_create env c =
          (CI_create (create_request c) # tr,
           Inr \<lparr>message = Some ''Successfully created chat!'', data = Some ?d, metadata = None\<rparr>)"
    using assms True by (simp add: create_result)
  moreover have "\<forall>ms. messages ?d = Some ms \<longrightarrow>
                   (\<forall>m \<in> set ms. tempGuid m = opt_field (body c) ''tempGuid'')"
    using stamp_all by blast
  moreover have "messages d = None \<or> messages d = Some [] \<longrightarrow> ?d = d"
    using stamp_no_messages by blast
  ultimately show ?thesis
    using True stamp_messages [where tg = "opt_field (body c) ''tempGuid''" and d = d]
      stamp_rest [where tg = "opt_field (body c) ''tempGuid''" and d = d]
    by blast
next
  case False
  then show ?thesis using assms by (simp add: create_result)
qed

theorem create_stamps_tempGuid_witness:
  "isNotEmpty_value sample_env (opt_field (body (ctx_of [] None (Some [(''tempGuid'', JStr ''abc123'')]))) ''tempGuid'')
   \<and> ChatRouter_create sample_env (ctx_of [] None (Some [(''tempGuid'', JStr ''abc123'')])) =
       ([CI_create \<lparr>cp_addresses = JUndefined, cp_message = JUndefined, cp_method = JUndefined,
                    cp_service = JUndefined, cp_tempGuid = JStr ''abc123''\<rparr>,
         Submit KCreate []],
        Inr \<lparr>message = Some ''Successfully created chat!'',
             data = Some ((sample_response chat_solo)
                      \<lparr>messages := Some [\<lparr>mr_guid = ''m1'', mr_text = ''hi'',
                                          tempGuid = JStr ''abc123''\<rparr>]\<rparr>),
             metadata = None\<rparr>)"
proof -
  let ?c = "ctx_of [] None (Some [(''tempGuid'', JStr ''abc123'')])"
  have tg: "opt_field (body ?c) ''tempGuid'' = JStr ''abc123''"
    by (simp add: ctx_of_def opt_field_def)
  have rq: "create_request ?c =
              \<lparr>cp_addresses = JUndefined, cp_message = JUndefined, cp_method = JUndefined,
               cp_service = JUndefined, cp_tempGuid = JStr ''abc123''\<rparr>"
    by (simp add: create_request_def ctx_of_def opt_field_def)
  have cr: "ChatInterface_create sample_env (create_request ?c) = ([Submit KCreate []], Inr (Some chat_solo))"
    by (simp add: sample_env_def)
  have r: "getChatResponse sample_env chat_solo = Inr (sample_response chat_solo)"
    by (simp add: sample_env_def)
  have ne: "isNotEmpty_value sample_env (opt_field (body ?c) ''tempGuid'')"
    unfolding tg by (simp add: sample_env_def)
  have ms: "messages (sample_response chat_solo) = Some [sample_message]"
    by (simp add: sample_response_def)
  from create_stamps_tempGuid [OF cr r] ne
  obtain d' where
    a: "ChatRouter_create sample_env ?c =
          (CI_create (create_request ?c) # [Submit KCreate []],
           Inr \<lparr>message = Some ''Successfully created chat!'', data = Some d', metadata = None\<rparr>)"
    and b: "messages d' =
              map_option (map (\<lambda>i. i\<lparr>tempGuid := opt_field (body ?c) ''tempGuid''\<rparr>))
                (messages (sample_response chat_solo))"
    and e: "d'\<lparr>messages := messages (sample_response chat_solo)\<rparr> = sample_response chat_solo"
    by blast
  have "d' = (d'\<lparr>messages := messages (sample_response chat_solo)\<rparr>)\<lparr>messages := messages d'\<rparr>"
    by simp
  then have "d' = (sample_response chat_solo)\<lparr>messages := messages d'\<rparr>"
    using e by simp
  then have "d' = (sample_response chat_solo)
                    \<lparr>messages := Some [\<lparr>mr_guid = ''m1'', mr_text = ''hi'', tempGuid = JStr ''abc123''\<rparr>]\<rparr>"
    using b by (simp add: ms tg sample_message_def)
  then show ?thesis using a ne by (simp add: rq)
qed

text \<open>
  C7. When the mark-read call returns, whatever it returns, the handler emits
  \<open>chat-read-status-changed\<close> with the payload \<open>{chatGuid: guid, read: true}\<close> as its next
  and last step, without any read of the store in between; when the emitter returns, the
  answer is the acknowledgement.
\<close>

theorem markRead_emits:
  assumes "markChatRead env (params_guid c) = (tr, Inr u)"
  shows "fst (ChatRouter_markRead env c) =
           PA_markChatRead (params_guid c) # tr
             @ [EmitMessage ''chat-read-status-changed''
                  (JObj [(''chatGuid'', JStr (params_guid c)), (''read'', JBool True)])]
         \<and> (emitMessage env ''chat-read-status-changed''
                (JObj [(''chatGuid'', JStr (params_guid c)), (''read'', JBool True)]) = Inr ()
              \<longrightarrow> snd (ChatRouter_markRead env c) =
                     Inr \<lparr>message = Some ''Successfully marked chat as read!'', data = None,
                          metadata = None\<rparr>)"
  using assms
  by (cases "emitMessage env ''chat-read-status-changed''
                (JObj [(''chatGuid'', JStr (params_guid c)), (''read'', JBool True)])")
     (simp_all add: ChatRouter_markRead_def read_payload_def io_defs)

theorem markRead_emits_witness:
  "markChatRead sample_env (params_guid (ctx_of ''g2'' None None)) = ([Submit KMarkRead ''g2''], Inr ())
   \<and> ChatRouter_markRead sample_env (ctx_of ''g2'' None None) =
       ([PA_markChatRead ''g2'', Submit KMarkRead ''g2'',
         EmitMessage ''chat-read-status-changed'' (JObj [(''chatGuid'', JStr ''g2''), (''read'', JBool True)])],
        Inr \<lparr>message = Some ''Successfully marked chat as read!'', data = None, metadata = None\<rparr>)"
proof -
  let ?c = "ctx_of ''g2'' None None"
  have pg: "params_guid ?c = ''g2''" by (simp add: ctx_of_def)
  have m: "markChatRead sample_env (params_guid ?c) = ([Submit KMarkRead ''g2''], Inr ())"
    by (simp add: sample_env_def pg)
  have e: "emitMessage sample_env ''chat-read-status-changed''
             (JObj [(''chatGuid'', JStr (params_guid ?c)), (''read'', JBool True)]) = Inr ()"
    by (simp add: sample_env_def)
  from markRead_emits [OF m] e
  have "fst (ChatRouter_markRead sample_env ?c) =
           PA_markChatRead (params_guid ?c) # [Submit KMarkRead ''g2'']
             @ [EmitMessage ''chat-read-status-changed''
                  (JObj [(''chatGuid'', JStr (params_guid ?c)), (''read'', JBool True)])]"
    and "snd (ChatRouter_markRead sample_env ?c) =
           Inr \<lparr>message = Some ''Successfully marked chat as read!'', data = None, metadata = None\<rparr>"
    by blast+
  then show ?thesis using m by (simp add: pg prod_eq_iff)
qed

section \<open>The total of a query, and roster changes\<close>

lemma query_answer:
  assumes "snd (ChatRouter_query env c) = Inr r"
  shows "\<exists>n. getChatCount env () = Inr n \<and> map_option md_total (metadata r) = Some n
              \<and> map_option md_offset (metadata r) = Some (opt_field (body c) ''offset'')
              \<and> map_option md_limit (metadata r) = Some (opt_field (body c) ''limit'')"
  using assms
  by (auto simp add: ChatRouter_query_def Let_def io_defs split: option.splits sum.splits)

text \<open>
  C9. Whenever \<^verbatim>\<open>query\<close> answers, \<open>metadata.total\<close> is what \<^verbatim>\<open>getChatCount()\<close>, called
  without any argument, returned: two requests with different guid filter, offset or limit
  get the same total, whatever the length of their data.
\<close>

theorem query_total_unfiltered:
  assumes "snd (ChatRouter_query env c) = Inr r"
    and "snd (ChatRouter_query env c') = Inr r'"
  shows "(\<exists>n. getChatCount env () = Inr n \<and> map_option md_total (metadata r) = Some n)
         \<and> map_option md_total (metadata r) = map_option md_total (metadata r')"
  using query_answer [OF assms(1)] query_answer [OF assms(2)] by auto

theorem query_total_unfiltered_witness:
  "snd (ChatRouter_query sample_env (ctx_of [] None (Some [(''guid'', JStr ''g1'')]))) =
     Inr \<lparr>message = None, data = Some [sample_response chat_solo],
          metadata = Some \<lparr>md_total = 3, md_offset = JUndefined, md_limit = JUndefined\<rparr>\<rparr>
   \<and> snd (ChatRouter_query sample_env (ctx_of [] None (Some [(''limit'', JNum 2)]))) =
     Inr \<lparr>message = None, data = Some (map sample_response sample_store),
          metadata = Some \<lparr>md_total = 3, md_offset = JUndefined, md_limit = JNum 2\<rparr>\<rparr>
   \<and> getChatCount sample_env () = Inr 3"
proof -
  let ?c = "ctx_of [] None (Some [(''guid'', JStr ''g1'')])"
  let ?c' = "ctx_of [] None (Some [(''limit'', JNum 2)])"
  have a: "snd (ChatRouter_query sample_env ?c) =
     Inr \<lparr>message = None, data = Some [sample_response chat_solo],
          metadata = Some \<lparr>md_total = 3, md_offset = JUndefined, md_limit = JUndefined\<rparr>\<rparr>"
    by (simp add: ChatRouter_query_def ctx_of_def opt_field_def Let_def io_defs sample_env_def
          sample_get_def sample_store_def chat_solo_def chat_team_def chat_sms_def)
  have b: "snd (ChatRouter_query sample_env ?c') =
     Inr \<lparr>message = None, data = Some (map sample_response sample_store),
          metadata = Some \<lparr>md_total = 3, md_offset = JUndefined, md_limit = JNum 2\<rparr>\<rparr>"
    by (simp add: ChatRouter_query_def ctx_of_def opt_field_def Let_def io_defs sample_env_def
          sample_get_def sample_store_def)
  from query_total_unfiltered [OF a b]
  have "getChatCount sample_env () = Inr 3" by auto
  with a b show ?thesis by simp
qed

lemma toggle_step:
  "getChats env (Some (guid_query c)) = Inr (ch # rest) \<Longrightarrow>
   ChatRouter_toggleParticipant env c action =
     io_bind ([Repo_getChats (Some (guid_query c))], Inr (ch # rest)) (\<lambda>chats.
       io_bind (await_call (CI_toggleParticipant ch (opt_field (body c) ''address'') action)
                  (ChatInterface_toggleParticipant env ch (opt_field (body c) ''address'') action)) (\<lambda>ch'.
       io_bind (lift (getChatResponse env ch')) (\<lambda>d.
         io_return \<lparr>message = None, data = Some d, metadata = None\<rparr>)))"
  by (simp add: ChatRouter_toggleParticipant_def guid_query_def Let_def isEmpty_def await_read_def
        io_bind_def)

lemma spec_toggle_rejects:
  "length (participants ch) \<le> 1 \<Longrightarrow>
   ParticipantRosterManager_toggle accepts resolve ch address op =
     ([], Inl (ErrorObject ''InvalidOperation'' ''roster cannot be changed''))"
  by (simp add: ParticipantRosterManager_toggle_def)

text \<open>
  C3. With the roster manager of the spec behind \<^verbatim>\<open>ChatInterface.toggleParticipant\<close>,
  removing a participant from a chat whose roster has at most one participant is
  rejected with InvalidOperation, which the router lets through; the trace holds no
  submission to the executor.
\<close>

theorem remove_last_participant_rejected:
  assumes "getChats env (Some (guid_query c)) = Inr (ch # rest)"
    and "length (participants ch) \<le> 1"
  shows "ChatRouter_removeParticipant (with_spec_toggle accepts env) c =
           ([Repo_getChats (Some (guid_query c)),
             CI_toggleParticipant ch (opt_field (body c) ''address'') Remove],
            Inl (Propagated (ErrorObject ''InvalidOperation'' ''roster cannot be changed'')))
         \<and> filter is_submit (fst (ChatRouter_removeParticipant (with_spec_toggle accepts env) c)) = []"
proof -
  have g: "getChats (with_spec_toggle accepts env) (Some (guid_query c)) = Inr (ch # rest)"
    using assms(1) by (simp add: with_spec_toggle_def)
  have t: "ChatInterface_toggleParticipant (with_spec_toggle accepts env) ch
             (opt_field (body c) ''address'') Remove
           = ([], Inl (ErrorObject ''InvalidOperation'' ''roster cannot be changed''))"
    using assms(2) by (simp add: with_spec_toggle_def spec_toggle_rejects)
  have "ChatRouter_removeParticipant (with_spec_toggle accepts env) c =
           ([Repo_getChats (Some (guid_query c)),
             CI_toggleParticipant ch (opt_field (body c) ''address'') Remove],
            Inl (Propagated (ErrorObject ''InvalidOperation'' ''roster cannot be changed'')))"
    unfolding ChatRouter_removeParticipant_def toggle_step [OF g] t
    by (simp add: io_defs)
  then show ?thesis by simp
qed

theorem remove_last_participant_rejected_witness:
  "getChats sample_env (Some (guid_query (ctx_of ''g1'' None (Some [(''address'', JStr ''+15551234567'')]))))
     = Inr [chat_solo]
   \<and> length (participants chat_solo) \<le> 1
   \<and> ChatRouter_removeParticipant (with_spec_toggle (\<lambda>k g. True) sample_env)
        (ctx_of ''g1'' None (Some [(''address'', JStr ''+15551234567'')])) =
       ([Repo_getChats (Some \<lparr>chatGuid = ''g1'', withParticipants = True\<rparr>),
         CI_toggleParticipant chat_solo (JStr ''+15551234567'') Remove],
        Inl (Propagated (ErrorObject ''InvalidOperation'' ''roster cannot be changed'')))"
proof -
  let ?c = "ctx_of ''g1'' None (Some [(''address'', JStr ''+15551234567'')])"
  have q: "guid_query ?c = \<lparr>chatGuid = ''g1'', withParticipants = True\<rparr>"
    by (simp add: guid_query_def ctx_of_def)
  have ad: "opt_field (body ?c) ''address'' = JStr ''+15551234567''"
    by (simp add: ctx_of_def opt_field_def)
  have g: "getChats sample_env (Some (guid_query ?c)) = Inr [chat_solo]"
    unfolding q
    by (simp add: sample_env_def sample_getChats_def sample_store_def
          chat_solo_def chat_team_def chat_sms_def)
  have p: "length (participants chat_solo) \<le> 1" by (simp add: chat_solo_def)
  show ?thesis
    using g p remove_last_participant_rejected [OF g p, of "\<lambda>k g. True"] by (simp add: q ad)
qed

end
